theory Spec2Isabelle
  imports Complex_Main "HOL-Library.List_Lexorder"
begin

section \<open>Values\<close>

text \<open>
  Strings are byte strings holding the UTF-8 form of the JavaScript string. A JSON value is
  what \<open>response.json()\<close> yields and what the stores keep (\<open>data: any\<close>); numbers are
  kept as integers, the code only ever tests them for being zero.
\<close>

datatype json =
    JNull
  | JBool bool
  | JNum int
  | JStr string
  | JArr "json list"
  | JObj "(string \<times> json) list"

text \<open>JavaScript truthiness, as used by \<open>if (cached)\<close> and \<open>a || b\<close>.\<close>

fun truthy :: "json \<Rightarrow> bool" where
  "truthy JNull = False"
| "truthy (JBool b) = b"
| "truthy (JNum n) = (n \<noteq> 0)"
| "truthy (JStr s) = (s \<noteq> [])"
| "truthy (JArr xs) = True"
| "truthy (JObj kvs) = True"

text \<open>A number that may be \<open>NaN\<close>: the result of \<open>parseInt\<close> and of arithmetic on it.\<close>

datatype jsnum = NaN | Num rat

fun jsnum_times :: "jsnum \<Rightarrow> rat \<Rightarrow> jsnum" where
  "jsnum_times NaN k = NaN"
| "jsnum_times (Num n) k = Num (n * k)"

fun jsnum_less :: "jsnum \<Rightarrow> rat \<Rightarrow> bool" where
  "jsnum_less NaN k = False"
| "jsnum_less (Num n) k = (n < k)"

definition digit_char :: "nat \<Rightarrow> char" where
  "digit_char n = ''0123456789ABCDEF'' ! n"

text \<open>Decimal rendering of a number inside a template string.\<close>

fun show_nat :: "nat \<Rightarrow> string" where
  "show_nat n = (if n < 10 then [digit_char n] else show_nat (n div 10) @ [digit_char (n mod 10)])"

section \<open>The persistence store (services/idb)\<close>

text \<open>
  An IndexedDB object store is a list of records with pairwise different keys; the order of
  the list is not observable, every read that returns several records sorts them. The four
  requests the helpers use: \<open>get\<close> yields nothing for a missing key, \<open>add\<close> rejects with a
  \<open>ConstraintError\<close> when the key is present, \<open>put\<close> replaces or inserts, \<open>delete\<close> removes
  and accepts a missing key. The first argument is the store's \<open>keyPath\<close>.
\<close>

datatype idb_error = ConstraintError

definition os_get :: "('v \<Rightarrow> 'k) \<Rightarrow> 'k \<Rightarrow> 'v list \<Rightarrow> 'v option" where
  "os_get keyPath k xs = find (\<lambda>x. keyPath x = k) xs"

definition os_add :: "('v \<Rightarrow> 'k) \<Rightarrow> 'v \<Rightarrow> 'v list \<Rightarrow> idb_error + 'v list" where
  "os_add keyPath v xs =
     (if os_get keyPath (keyPath v) xs \<noteq> None then Inl ConstraintError else Inr (xs @ [v]))"

definition os_put :: "('v \<Rightarrow> 'k) \<Rightarrow> 'v \<Rightarrow> 'v list \<Rightarrow> 'v list" where
  "os_put keyPath v xs =
     (if os_get keyPath (keyPath v) xs \<noteq> None
      then map (\<lambda>x. if keyPath x = keyPath v then v else x) xs
      else xs @ [v])"

definition os_delete :: "('v \<Rightarrow> 'k) \<Rightarrow> 'k \<Rightarrow> 'v list \<Rightarrow> 'v list" where
  "os_delete keyPath k xs = filter (\<lambda>x. keyPath x \<noteq> k) xs"

definition os_getAll :: "('v \<Rightarrow> 'k::linorder) \<Rightarrow> 'v list \<Rightarrow> 'v list" where
  "os_getAll keyPath xs = sort_key keyPath xs"

text \<open>
  IndexedDB orders string keys by their UTF-16 code units. \<open>utf16\<close> gives the code units
  of a (well-formed) UTF-8 byte string: the code points first, then one unit for a code
  point of the basic plane and a surrogate pair for any other.
\<close>

fun utf8_code_points :: "nat list \<Rightarrow> nat list" where
  "utf8_code_points [] = []"
| "utf8_code_points (b # bs) =
     (if b < 0x80 then b # utf8_code_points bs
      else if 0xC0 \<le> b \<and> b < 0xE0 then
        (case bs of
           b1 # rest \<Rightarrow> ((b - 0xC0) * 64 + (b1 - 0x80)) # utf8_code_points rest
         | _ \<Rightarrow> [0xFFFD])
      else if 0xE0 \<le> b \<and> b < 0xF0 then
        (case bs of
           b1 # b2 # rest \<Rightarrow>
             ((b - 0xE0) * 4096 + (b1 - 0x80) * 64 + (b2 - 0x80)) # utf8_code_points rest
         | _ \<Rightarrow> [0xFFFD])
      else if 0xF0 \<le> b \<and> b < 0xF8 then
        (case bs of
           b1 # b2 # b3 # rest \<Rightarrow>
             ((b - 0xF0) * 262144 + (b1 - 0x80) * 4096 + (b2 - 0x80) * 64 + (b3 - 0x80))
               # utf8_code_points rest
         | _ \<Rightarrow> [0xFFFD])
      else 0xFFFD # utf8_code_points bs)"

definition utf16_units :: "nat \<Rightarrow> nat list" where
  "utf16_units cp =
     (if cp < 0x10000 then [cp]
      else [0xD800 + (cp - 0x10000) div 1024, 0xDC00 + (cp - 0x10000) mod 1024])"

definition utf16 :: "string \<Rightarrow> nat list" where
  "utf16 s = concat (map utf16_units (utf8_code_points (map of_char s)))"

text \<open>\<open>array.slice(0, limit)\<close>; a negative limit counts from the end.\<close>

definition slice0 :: "int \<Rightarrow> 'a list \<Rightarrow> 'a list" where
  "slice0 limit xs =
     (if 0 \<le> limit then take (nat limit) xs else take (length xs - nat (- limit)) xs)"

record favorite =
  fav_id :: int
  title :: string
  overview :: string
  poster_path :: string
  release_date :: string
  vote_average :: rat
  savedAt :: int

record history_entry =
  query :: string
  searched_timestamp :: int

record cache_entry =
  key :: string
  data :: json
  timestamp :: int
  ttl :: int

record usage_event =
  action :: string
  event_data :: json
  event_timestamp :: int

text \<open>
  The five stores of \<open>initDB\<close>. \<open>preferences\<close> has out-of-line keys. \<open>analytics\<close> has
  auto-incremented keys: the list is in key order and the n-th event has key n, since no
  helper deletes an event.
\<close>

record db =
  favorites :: "favorite list"
  search_history :: "history_entry list"
  api_cache :: "cache_entry list"
  preferences :: "(string \<times> json) list"
  analytics :: "usage_event list"

definition initDB :: db where
  "initDB = \<lparr>favorites = [], search_history = [], api_cache = [], preferences = [], analytics = []\<rparr>"

subsection \<open>Favorites\<close>

definition addFavorite :: "favorite \<Rightarrow> db \<Rightarrow> (idb_error + int) \<times> db" where
  "addFavorite movie d =
     (case os_add fav_id movie (favorites d) of
        Inl e \<Rightarrow> (Inl e, d)
      | Inr favs \<Rightarrow> (Inr (fav_id movie), d\<lparr>favorites := favs\<rparr>))"

definition removeFavorite :: "int \<Rightarrow> db \<Rightarrow> db" where
  "removeFavorite i d = d\<lparr>favorites := os_delete fav_id i (favorites d)\<rparr>"

definition getFavorites :: "db \<Rightarrow> favorite list" where
  "getFavorites d = os_getAll fav_id (favorites d)"

definition isFavorite :: "int \<Rightarrow> db \<Rightarrow> bool" where
  "isFavorite i d = (os_get fav_id i (favorites d) \<noteq> None)"

text \<open>
  A user session on the favorites store: each step is one helper call; a rejected
  \<open>addFavorite\<close> is caught by its caller and leaves the store as it was.
\<close>

datatype fav_op = AddFavorite favorite | RemoveFavorite int

fun fav_step :: "db \<Rightarrow> fav_op \<Rightarrow> db" where
  "fav_step d (AddFavorite movie) = snd (addFavorite movie d)"
| "fav_step d (RemoveFavorite i) = removeFavorite i d"

definition fav_run :: "fav_op list \<Rightarrow> db \<Rightarrow> db" where
  "fav_run ops d = foldl fav_step d ops"

subsection \<open>Search history\<close>

text \<open>\<open>now\<close> is the value \<open>Date.now()\<close> returns inside the helper.\<close>

definition addToSearchHistory :: "int \<Rightarrow> string \<Rightarrow> db \<Rightarrow> db" where
  "addToSearchHistory now q d =
     d\<lparr>search_history :=
         os_put query \<lparr>query = q, searched_timestamp = now\<rparr> (search_history d)\<rparr>"

text \<open>
  \<open>index.getAll()\<close> lists the records by index key, equal index keys by primary key (the
  query, a string key); \<open>Array.prototype.sort\<close> is stable and the comparator orders by
  descending timestamp.
\<close>

definition getSearchHistory :: "int \<Rightarrow> db \<Rightarrow> history_entry list" where
  "getSearchHistory limit d =
     (let history =
            sort_key searched_timestamp (sort_key (\<lambda>e. utf16 (query e)) (search_history d))
      in slice0 limit (sort_key (\<lambda>e. - searched_timestamp e) history))"

subsection \<open>Response cache\<close>

definition cacheAPIResponse :: "int \<Rightarrow> string \<Rightarrow> json \<Rightarrow> int \<Rightarrow> db \<Rightarrow> db" where
  "cacheAPIResponse now k payload ttlMinutes d =
     d\<lparr>api_cache :=
         os_put key \<lparr>key = k, data = payload, timestamp = now, ttl = ttlMinutes * 60 * 1000\<rparr>
           (api_cache d)\<rparr>"

text \<open>The result \<open>JNull\<close> is the \<open>null\<close> the helper returns for a missing or expired entry.\<close>

definition getCachedResponse :: "int \<Rightarrow> string \<Rightarrow> db \<Rightarrow> json \<times> db" where
  "getCachedResponse now k d =
     (case os_get key k (api_cache d) of
        None \<Rightarrow> (JNull, d)
      | Some cached \<Rightarrow>
          (let isExpired = (now - timestamp cached > ttl cached) in
           if isExpired then (JNull, d\<lparr>api_cache := os_delete key k (api_cache d)\<rparr>)
           else (data cached, d)))"

subsection \<open>Preferences\<close>

definition setPreference :: "string \<Rightarrow> json \<Rightarrow> db \<Rightarrow> db" where
  "setPreference k v d = d\<lparr>preferences := os_put fst (k, v) (preferences d)\<rparr>"

definition getPreference :: "string \<Rightarrow> db \<Rightarrow> json option" where
  "getPreference k d = map_option snd (os_get fst k (preferences d))"

subsection \<open>Analytics\<close>

definition trackEvent :: "int \<Rightarrow> string \<Rightarrow> json \<Rightarrow> db \<Rightarrow> nat \<times> db" where
  "trackEvent now act payload d =
     (Suc (length (analytics d)),
      d\<lparr>analytics := analytics d @ [\<lparr>action = act, event_data = payload, event_timestamp = now\<rparr>]\<rparr>)"

definition getAnalytics :: "int \<Rightarrow> db \<Rightarrow> usage_event list" where
  "getAnalytics limit d =
     (let events = sort_key event_timestamp (analytics d)
      in slice0 limit (sort_key (\<lambda>e. - event_timestamp e) events))"

section \<open>Bulk reset (pages/Settings)\<close>

text \<open>
  \<open>clearAllData\<close> on the run where no helper rejects: the three reads, one
  \<open>removeFavorite\<close> per favorite read, and \<open>localStorage.clear()\<close>. The second component is
  the content of \<open>localStorage\<close>.
\<close>

definition clearAllData :: "db \<times> (string \<times> string) list \<Rightarrow> db \<times> (string \<times> string) list" where
  "clearAllData = (\<lambda>(d, localStorage).
     let favs = getFavorites d;
         searchHistory = getSearchHistory 1000 d;
         events = getAnalytics 1000 d;
         d' = fold (\<lambda>fav. removeFavorite (fav_id fav)) favs d
     in (d', []))"

section \<open>The API client (api/apiClient)\<close>

subsection \<open>Query strings\<close>

text \<open>
  An object literal keeps its properties in enumeration order: the names that are array
  indices first, by numeric value, then the other names in the order they were first set.
  Setting a name that is present replaces its value where it stands.
\<close>

definition is_digit :: "char \<Rightarrow> bool" where
  "is_digit c = (48 \<le> (of_char c :: nat) \<and> (of_char c :: nat) \<le> 57)"

definition digits_value :: "string \<Rightarrow> int" where
  "digits_value s = foldl (\<lambda>n c. 10 * n + (of_char c - 48)) 0 s"

definition is_array_index :: "string \<Rightarrow> bool" where
  "is_array_index s =
     (s \<noteq> [] \<and> list_all is_digit s \<and> (s = ''0'' \<or> hd s \<noteq> CHR ''0'') \<and>
      digits_value s < 2 ^ 32 - 1)"

fun js_set :: "string \<Rightarrow> 'v \<Rightarrow> (string \<times> 'v) list \<Rightarrow> (string \<times> 'v) list" where
  "js_set k v [] = [(k, v)]"
| "js_set k v ((k', v') # rest) =
     (if k' = k then (k, v) # rest
      else if is_array_index k \<and> (\<not> is_array_index k' \<or> digits_value k < digits_value k')
      then (k, v) # (k', v') # rest
      else (k', v') # js_set k v rest)"

text \<open>
  \<open>{ api_key: this.apiKey, ...params }\<close>; \<open>params\<close> lists the own properties of the
  caller's object in its enumeration order, the values already converted to strings as
  \<open>URLSearchParams\<close> does.
\<close>

definition spread_params :: "string \<Rightarrow> (string \<times> string) list \<Rightarrow> (string \<times> string) list" where
  "spread_params apiKey params = fold (\<lambda>(k, v). js_set k v) params [(''api_key'', apiKey)]"

text \<open>
  \<open>URLSearchParams.toString()\<close>: the application/x-www-form-urlencoded serializer. A
  space becomes \<open>+\<close>; letters, digits and \<open>* - . _\<close> stay; every other byte becomes
  \<open>%XX\<close>.
\<close>

definition urlencode_byte :: "char \<Rightarrow> string" where
  "urlencode_byte c =
     (let n = (of_char c :: nat) in
      if n = 32 then ''+''
      else if (48 \<le> n \<and> n \<le> 57) \<or> (65 \<le> n \<and> n \<le> 90) \<or> (97 \<le> n \<and> n \<le> 122) \<or>
              n = 42 \<or> n = 45 \<or> n = 46 \<or> n = 95 then [c]
      else [CHR ''%'', digit_char (n div 16), digit_char (n mod 16)])"

definition urlencode :: "string \<Rightarrow> string" where
  "urlencode s = concat (map urlencode_byte s)"

fun join_amp :: "string list \<Rightarrow> string" where
  "join_amp [] = []"
| "join_amp [x] = x"
| "join_amp (x # y # ys) = x @ ''&'' @ join_amp (y # ys)"

definition URLSearchParams_toString :: "(string \<times> string) list \<Rightarrow> string" where
  "URLSearchParams_toString ps = join_amp (map (\<lambda>(k, v). urlencode k @ ''='' @ urlencode v) ps)"

text \<open>The key under which \<open>get\<close> reads and writes the cache, for a client with this API key.\<close>

definition cacheKey_of :: "string \<Rightarrow> string \<Rightarrow> (string \<times> string) list \<Rightarrow> string" where
  "cacheKey_of apiKey endpoint params =
     ''GET:'' @ endpoint @ '':'' @ URLSearchParams_toString (spread_params apiKey params)"

subsection \<open>Responses, errors and the client\<close>

text \<open>
  An instance of \<open>Error\<close>: its name, its message, and whether it is a \<open>TypeError\<close>. A
  rejected \<open>fetch\<close> and a rejected storage request carry one.
\<close>

record js_error =
  err_name :: string
  err_message :: string
  is_TypeError :: bool

text \<open>
  What \<open>get\<close> can throw: an \<open>Error\<close> instance, or the object literal
  \<open>{message, status, isNetworkError}\<close> typed \<open>APIError\<close>.
\<close>

datatype thrown = Err js_error | APIError json "nat option" bool

text \<open>
  A response as the client observes it: the status; for each header it reads, nothing when
  \<open>headers.get\<close> is null or empty, else the value \<open>parseInt\<close> gives; and the outcome of
  \<open>response.json()\<close>.
\<close>

record response =
  status :: nat
  retry_after :: "jsnum option"
  ratelimit_remaining :: "jsnum option"
  ratelimit_reset :: "jsnum option"
  body_json :: "js_error + json"

definition ok :: "response \<Rightarrow> bool" where
  "ok r = (200 \<le> status r \<and> status r \<le> 299)"

datatype fetch_outcome = Responds response | Rejects js_error

record RateLimitInfo =
  remaining :: jsnum
  resetTime :: jsnum
  isNearLimit :: bool

text \<open>
  What the client does to the outside: a call of \<open>fetch\<close> with a URL, or a delay passed to
  \<open>setTimeout\<close> before a retry.
\<close>

datatype effect = Fetch string | Wait jsnum

text \<open>
  The client object, with a trace field that lists its effects, oldest first. \<open>sent\<close> and
  \<open>waited\<close> read the URLs fetched and the delays waited off the trace.
\<close>

record client =
  baseURL :: string
  apiKey :: string
  rateLimitInfo :: "RateLimitInfo option"
  trace :: "effect list"

definition did :: "effect \<Rightarrow> client \<Rightarrow> client" where
  "did e c = c\<lparr>trace := trace c @ [e]\<rparr>"

definition sent :: "client \<Rightarrow> string list" where
  "sent c = concat (map (\<lambda>e. case e of Fetch url \<Rightarrow> [url] | Wait w \<Rightarrow> []) (trace c))"

definition waited :: "client \<Rightarrow> jsnum list" where
  "waited c = concat (map (\<lambda>e. case e of Fetch url \<Rightarrow> [] | Wait w \<Rightarrow> [w]) (trace c))"

definition parseRateLimitHeaders :: "response \<Rightarrow> client \<Rightarrow> client" where
  "parseRateLimitHeaders r c =
     (case (ratelimit_remaining r, ratelimit_reset r) of
        (Some rem, Some reset) \<Rightarrow>
          c\<lparr>rateLimitInfo := Some \<lparr>remaining = rem, resetTime = jsnum_times reset 1000,
                                   isNearLimit = jsnum_less rem 10\<rparr>\<rparr>
      | _ \<Rightarrow> c)"

definition isNetworkError :: "thrown \<Rightarrow> bool" where
  "isNetworkError error =
     (case error of
        Err e \<Rightarrow> is_TypeError e \<or> err_message e = ''Failed to fetch'' \<or>
                 err_message e = ''Network request failed''
      | APIError msg st flag \<Rightarrow> msg = JStr ''Failed to fetch'' \<or> msg = JStr ''Network request failed'')"

definition sleep :: "jsnum \<Rightarrow> client \<Rightarrow> client" where
  "sleep waitTime c = did (Wait waitTime) c"

text \<open>\<open>Math.pow(2, 3 - retries) * 1000\<close>\<close>

definition backoff :: "nat \<Rightarrow> jsnum" where
  "backoff retries = Num (2 powi (3 - int retries) * 1000)"

definition request_timeout :: js_error where
  "request_timeout = \<lparr>err_name = ''Error'', err_message = ''Request timeout'', is_TypeError = False\<rparr>"

subsection \<open>fetchWithRetry\<close>

text \<open>
  \<open>net n\<close> is what the n-th call of \<open>fetch\<close> on this client does, counted from 0 over the
  client's life; an attempt that outlives the 10 second timer is a rejection named
  \<open>AbortError\<close>. The recursive calls are returned without \<open>await\<close>, so what they throw
  does not pass through the handler of the calling attempt.
\<close>

fun fetchWithRetry :: "(nat \<Rightarrow> fetch_outcome) \<Rightarrow> string \<Rightarrow> nat \<Rightarrow> client \<Rightarrow> (js_error + response) \<times> client" where
  "fetchWithRetry net url retries c =
     (let c1 = did (Fetch url) c in
      case net (length (sent c)) of
        Responds r \<Rightarrow>
          (let c2 = parseRateLimitHeaders r c1 in
           if status r = 429 \<and> retries > 0 then
             fetchWithRetry net url (retries - 1)
               (sleep (case retry_after r of Some n \<Rightarrow> jsnum_times n 1000 | None \<Rightarrow> Num 1000) c2)
           else if status r \<ge> 500 \<and> retries > 0 then
             fetchWithRetry net url (retries - 1) (sleep (backoff retries) c2)
           else (Inr r, c2))
      | Rejects error \<Rightarrow>
          if err_name error = ''AbortError'' then (Inl request_timeout, c1)
          else if retries > 0 \<and> isNetworkError (Err error) then
            fetchWithRetry net url (retries - 1) (sleep (backoff retries) c1)
          else (Inl error, c1))"

subsection \<open>get\<close>

text \<open>
  What the surroundings decide during one call of \<open>get\<close>: the network, and for each of the
  four storage calls the value of \<open>Date.now()\<close> inside it and whether it rejects (the
  store unavailable, the quota exceeded). A rejected storage call changes nothing.
\<close>

datatype storage_call = CacheLookup | CacheStore | TrackCall | TrackError

record get_env =
  net :: "nat \<Rightarrow> fetch_outcome"
  clock :: "storage_call \<Rightarrow> int"
  storage_fault :: "storage_call \<Rightarrow> js_error option"

definition await_storage :: "js_error option \<Rightarrow> (db \<Rightarrow> 'a \<times> db) \<Rightarrow> db \<Rightarrow> (js_error + 'a) \<times> db" where
  "await_storage fault f d =
     (case fault of
        Some e \<Rightarrow> (Inl e, d)
      | None \<Rightarrow> (case f d of (x, d') \<Rightarrow> (Inr x, d')))"

text \<open>
  \<open>errorData.status_message\<close>; reading a property of \<open>null\<close> throws a \<open>TypeError\<close>,
  with the message the engine gives it (here the text of V8).
\<close>

definition null_property_error :: js_error where
  "null_property_error =
     \<lparr>err_name = ''TypeError'',
      err_message = ''Cannot read properties of null (reading 'status_message')'',
      is_TypeError = True\<rparr>"

definition status_message_of :: "json \<Rightarrow> js_error + json option" where
  "status_message_of errorData =
     (case errorData of
        JNull \<Rightarrow> Inl null_property_error
      | JObj kvs \<Rightarrow> Inr (map_of kvs ''status_message'')
      | _ \<Rightarrow> Inr None)"

text \<open>
  The object thrown for a response that is not ok; \<open>response.json().catch(() => ({}))\<close>
  turns an unreadable body into the empty object.
\<close>

definition http_error :: "response \<Rightarrow> thrown" where
  "http_error r =
     (let errorData = (case body_json r of Inl e \<Rightarrow> JObj [] | Inr j \<Rightarrow> j) in
      case status_message_of errorData of
        Inl e \<Rightarrow> Err e
      | Inr m \<Rightarrow>
          APIError
            (case m of
               Some v \<Rightarrow> if truthy v then v else JStr (''HTTP '' @ show_nat (status r))
             | None \<Rightarrow> JStr (''HTTP '' @ show_nat (status r)))
            (Some (status r)) False)"

definition api_call_event :: "string \<Rightarrow> response \<Rightarrow> json" where
  "api_call_event endpoint r =
     JObj [(''endpoint'', JStr endpoint), (''status'', JNum (int (status r))),
           (''cached'', JBool False)]"

text \<open>The body of the \<open>try\<close> block.\<close>

definition get_try :: "get_env \<Rightarrow> string \<Rightarrow> string \<Rightarrow> string \<Rightarrow> client \<times> db \<Rightarrow> (thrown + json) \<times> client \<times> db" where
  "get_try env endpoint url cacheKey = (\<lambda>(c, d).
     case fetchWithRetry (net env) url 3 c of
       (Inl e, c1) \<Rightarrow> (Inl (Err e), c1, d)
     | (Inr r, c1) \<Rightarrow>
         if \<not> ok r then (Inl (http_error r), c1, d)
         else
           (case body_json r of
              Inl e \<Rightarrow> (Inl (Err e), c1, d)
            | Inr payload \<Rightarrow>
                (case await_storage (storage_fault env CacheStore)
                        (\<lambda>d. ((), cacheAPIResponse (clock env CacheStore) cacheKey payload 10 d)) d of
                   (Inl e, d1) \<Rightarrow> (Inl (Err e), c1, d1)
                 | (Inr u, d1) \<Rightarrow>
                     (case await_storage (storage_fault env TrackCall)
                             (trackEvent (clock env TrackCall) ''api_call''
                                (api_call_event endpoint r)) d1 of
                        (Inl e, d2) \<Rightarrow> (Inl (Err e), c1, d2)
                      | (Inr k, d2) \<Rightarrow> (Inr payload, c1, d2)))))"

text \<open>The \<open>catch\<close> block.\<close>

definition network_error :: thrown where
  "network_error = APIError (JStr ''Network error. Please check your connection.'') None True"

text \<open>\<open>error instanceof Error ? error.message : 'Unknown error'\<close>\<close>

definition error_text :: "thrown \<Rightarrow> string" where
  "error_text error =
     (case error of Err e \<Rightarrow> err_message e | APIError msg st flag \<Rightarrow> ''Unknown error'')"

definition api_error_event :: "string \<Rightarrow> thrown \<Rightarrow> json" where
  "api_error_event endpoint error =
     JObj [(''endpoint'', JStr endpoint), (''error'', JStr (error_text error))]"

definition get_catch :: "get_env \<Rightarrow> string \<Rightarrow> thrown \<Rightarrow> client \<times> db \<Rightarrow> (thrown + json) \<times> client \<times> db" where
  "get_catch env endpoint error = (\<lambda>(c, d).
     case await_storage (storage_fault env TrackError)
            (trackEvent (clock env TrackError) ''api_error'' (api_error_event endpoint error)) d of
       (Inl e, d1) \<Rightarrow> (Inl (Err e), c, d1)
     | (Inr k, d1) \<Rightarrow>
         if isNetworkError error then (Inl network_error, c, d1) else (Inl error, c, d1))"

text \<open>The URL \<open>get\<close> passes to \<open>fetch\<close>.\<close>

definition request_url :: "client \<Rightarrow> string \<Rightarrow> (string \<times> string) list \<Rightarrow> string" where
  "request_url c endpoint params =
     baseURL c @ endpoint @ ''?'' @ URLSearchParams_toString (spread_params (apiKey c) params)"

definition get :: "get_env \<Rightarrow> string \<Rightarrow> (string \<times> string) list \<Rightarrow> client \<times> db \<Rightarrow> (thrown + json) \<times> client \<times> db" where
  "get env endpoint params = (\<lambda>(c, d).
     let urlParams = URLSearchParams_toString (spread_params (apiKey c) params);
         url = baseURL c @ endpoint @ ''?'' @ urlParams;
         cacheKey = ''GET:'' @ endpoint @ '':'' @ urlParams
     in case await_storage (storage_fault env CacheLookup)
               (getCachedResponse (clock env CacheLookup) cacheKey) d of
          (Inl e, d0) \<Rightarrow> (Inl (Err e), c, d0)
        | (Inr cached, d0) \<Rightarrow>
            if truthy cached then (Inr cached, c, d0)
            else (case get_try env endpoint url cacheKey (c, d0) of
                    (Inl error, c1, d1) \<Rightarrow> get_catch env endpoint error (c1, d1)
                  | (Inr payload, c1, d1) \<Rightarrow> (Inr payload, c1, d1)))"

text \<open>
  The exported client \<open>tmdbClient\<close>, before its first call; the key is the fallback the
  source uses when the build sets none.
\<close>

definition tmdbClient :: client where
  "tmdbClient =
     \<lparr>baseURL = ''https://api.themoviedb.org/3'', apiKey = ''demo-key'', rateLimitInfo = None,
      trace = []\<rparr>"

subsection \<open>Surroundings for concrete runs\<close>

text \<open>
  A response without the headers the client reads; surroundings in which every \<open>fetch\<close>
  gets the same response and every clock reading is the same; and the error of a store
  that is out of quota.
\<close>

definition plain_response :: "nat \<Rightarrow> json \<Rightarrow> response" where
  "plain_response st body =
     \<lparr>status = st, retry_after = None, ratelimit_remaining = None, ratelimit_reset = None,
      body_json = Inr body\<rparr>"

definition steady_env :: "response \<Rightarrow> int \<Rightarrow> (storage_call \<Rightarrow> js_error option) \<Rightarrow> get_env" where
  "steady_env r t faults = \<lparr>net = (\<lambda>i. Responds r), clock = (\<lambda>s. t), storage_fault = faults\<rparr>"

definition quota_exceeded :: js_error where
  "quota_exceeded =
     \<lparr>err_name = ''QuotaExceededError'', err_message = ''The quota has been exceeded.'',
      is_TypeError = False\<rparr>"

declare fetchWithRetry.simps [simp del]

section \<open>Properties of the persistence store\<close>

subsection \<open>Object stores\<close>

lemma os_get_None_iff: "os_get keyPath k xs = None \<longleftrightarrow> k \<notin> keyPath ` set xs"
  by (auto simp: os_get_def find_None_iff)

lemma os_get_delete_same: "os_get keyPath k (os_delete keyPath k xs) = None"
  by (auto simp: os_get_None_iff os_delete_def)

lemma os_get_delete_other:
  "k' \<noteq> k \<Longrightarrow> os_get keyPath k' (os_delete keyPath k xs) = os_get keyPath k' xs"
  by (induction xs) (auto simp: os_get_def os_delete_def)

lemma os_get_put_same: "os_get keyPath (keyPath v) (os_put keyPath v xs) = Some v"
  by (induction xs) (auto simp: os_get_def os_put_def)

lemma os_add_distinct:
  assumes "os_add keyPath v xs = Inr ys" and "distinct (map keyPath xs)"
  shows "distinct (map keyPath ys)"
  using assms by (auto simp: os_add_def os_get_None_iff split: if_splits)

lemma os_delete_distinct: "distinct (map keyPath xs) \<Longrightarrow> distinct (map keyPath (os_delete keyPath k xs))"
  by (simp add: os_delete_def distinct_map_filter)

lemma distinct_keys_count:
  "distinct (map keyPath xs) \<Longrightarrow> length (filter (\<lambda>x. keyPath x = k) xs) \<le> 1"
proof (induction xs)
  case Nil
  show ?case by simp
next
  case (Cons a xs)
  show ?case
  proof (cases "keyPath a = k")
    case True
    with Cons.prems have "k \<notin> keyPath ` set xs"
      by simp
    then have "filter (\<lambda>x. keyPath x = k) xs = []"
      by (auto simp: filter_empty_conv)
    with True show ?thesis by simp
  next
    case False
    with Cons show ?thesis by simp
  qed
qed

subsection \<open>Favorites\<close>

lemma fav_step_distinct:
  assumes "distinct (map fav_id (favorites d))"
  shows "distinct (map fav_id (favorites (fav_step d x)))"
proof (cases x)
  case (AddFavorite movie)
  show ?thesis
  proof (cases "os_add fav_id movie (favorites d)")
    case (Inl e)
    with AddFavorite assms show ?thesis by (simp add: addFavorite_def)
  next
    case (Inr favs)
    with AddFavorite os_add_distinct [OF Inr assms] show ?thesis by (simp add: addFavorite_def)
  qed
next
  case (RemoveFavorite i)
  with assms show ?thesis by (simp add: removeFavorite_def os_delete_distinct)
qed

lemma fav_run_distinct:
  "distinct (map fav_id (favorites d)) \<Longrightarrow> distinct (map fav_id (favorites (fav_run ops d)))"
  unfolding fav_run_def by (induction ops arbitrary: d) (simp_all add: fav_step_distinct)

lemma addFavorite_present:
  "fav_id movie \<in> fav_id ` set (favorites (snd (addFavorite movie d)))"
proof (cases "os_get fav_id (fav_id movie) (favorites d)")
  case None
  then show ?thesis by (simp add: addFavorite_def os_add_def)
next
  case (Some f)
  then have "fav_id movie \<in> fav_id ` set (favorites d)"
    using os_get_None_iff [of fav_id "fav_id movie" "favorites d"] by simp
  with Some show ?thesis by (simp add: addFavorite_def os_add_def)
qed

lemma addFavorite_keeps:
  "k \<in> fav_id ` set (favorites d) \<Longrightarrow> k \<in> fav_id ` set (favorites (snd (addFavorite movie d)))"
  by (auto simp: addFavorite_def os_add_def)

lemma present_count_pos:
  "k \<in> keyPath ` set xs \<Longrightarrow> 0 < length (filter (\<lambda>x. keyPath x = k) xs)"
  by (induction xs) auto

text \<open>
  C9. Whatever sequence of add-favorite and remove-favorite calls runs on a fresh database,
  the favorites store holds at most one record of any movie id; and adding one movie id
  twice in a row, after any such sequence, leaves exactly one record of that id.
\<close>

theorem favorites_unique_per_id:
  "length (filter (\<lambda>f. fav_id f = k) (favorites (fav_run ops initDB))) \<le> 1 \<and>
   length (filter (\<lambda>f. fav_id f = fav_id movie)
      (favorites (fav_run [AddFavorite movie, AddFavorite (again\<lparr>fav_id := fav_id movie\<rparr>)]
                    (fav_run ops initDB)))) = 1"
proof
  have init: "distinct (map fav_id (favorites initDB))"
    by (simp add: initDB_def)
  show "length (filter (\<lambda>f. fav_id f = k) (favorites (fav_run ops initDB))) \<le> 1"
    by (rule distinct_keys_count [OF fav_run_distinct [OF init]])
  let ?d = "fav_run ops initDB"
  let ?d2 = "fav_run [AddFavorite movie, AddFavorite (again\<lparr>fav_id := fav_id movie\<rparr>)] ?d"
  have "distinct (map fav_id (favorites ?d2))"
    by (rule fav_run_distinct [OF fav_run_distinct [OF init]])
  then have le: "length (filter (\<lambda>f. fav_id f = fav_id movie) (favorites ?d2)) \<le> 1"
    by (rule distinct_keys_count)
  have "fav_id movie \<in> fav_id ` set (favorites ?d2)"
    unfolding fav_run_def by (simp add: addFavorite_keeps addFavorite_present)
  then have "0 < length (filter (\<lambda>f. fav_id f = fav_id movie) (favorites ?d2))"
    by (rule present_count_pos)
  with le show "length (filter (\<lambda>f. fav_id f = fav_id movie) (favorites ?d2)) = 1"
    by linarith
qed

theorem favorites_unique_per_id_witness:
  "length (filter (\<lambda>f. fav_id f = 7)
      (favorites (fav_run
         [AddFavorite \<lparr>fav_id = 7, title = ''Dune'', overview = ''Sand'', poster_path = ''/d.jpg'',
                       release_date = ''2021-09-15'', vote_average = 8, savedAt = 100\<rparr>,
          AddFavorite \<lparr>fav_id = 7, title = ''Dune'', overview = ''Sand'', poster_path = ''/d.jpg'',
                       release_date = ''2021-09-15'', vote_average = 8, savedAt = 200\<rparr>]
         (fav_run [] initDB)))) = 1"
  using favorites_unique_per_id [of 7 "[]"
      "\<lparr>fav_id = 7, title = ''Dune'', overview = ''Sand'', poster_path = ''/d.jpg'',
        release_date = ''2021-09-15'', vote_average = 8, savedAt = 100\<rparr>"
      "\<lparr>fav_id = 7, title = ''Dune'', overview = ''Sand'', poster_path = ''/d.jpg'',
        release_date = ''2021-09-15'', vote_average = 8, savedAt = 200\<rparr>"]
  by simp

text \<open>
  C10. When the favorites store holds a record with the id of the movie passed to
  \<open>addFavorite\<close>, the call is rejected with a constraint error and the whole database,
  that record and its \<open>savedAt\<close> included, is as before.
\<close>

theorem addFavorite_existing_id_rejected:
  assumes "f \<in> set (favorites d)" and "fav_id movie = fav_id f"
  shows "addFavorite movie d = (Inl ConstraintError, d)"
proof -
  from assms have "fav_id movie \<in> fav_id ` set (favorites d)"
    by auto
  then have "os_get fav_id (fav_id movie) (favorites d) \<noteq> None"
    by (simp add: os_get_None_iff)
  then show ?thesis
    by (simp add: addFavorite_def os_add_def)
qed

theorem addFavorite_existing_id_rejected_witness:
  "addFavorite \<lparr>fav_id = 7, title = ''Dune'', overview = ''Sand'', poster_path = ''/d.jpg'',
                 release_date = ''2021-09-15'', vote_average = 8, savedAt = 200\<rparr>
     (initDB\<lparr>favorites := [\<lparr>fav_id = 7, title = ''Dune'', overview = ''Sand'', poster_path = ''/d.jpg'',
                 release_date = ''2021-09-15'', vote_average = 8, savedAt = 100\<rparr>]\<rparr>)
   = (Inl ConstraintError,
      initDB\<lparr>favorites := [\<lparr>fav_id = 7, title = ''Dune'', overview = ''Sand'', poster_path = ''/d.jpg'',
                 release_date = ''2021-09-15'', vote_average = 8, savedAt = 100\<rparr>]\<rparr>)"
  by (rule addFavorite_existing_id_rejected
        [of "\<lparr>fav_id = 7, title = ''Dune'', overview = ''Sand'', poster_path = ''/d.jpg'',
              release_date = ''2021-09-15'', vote_average = 8, savedAt = 100\<rparr>"]) simp_all

subsection \<open>Search history\<close>

lemma utf16_dune_arrival: "utf16 ''arrival'' < utf16 ''dune''"
  by (simp add: utf16_def utf16_units_def)

text \<open>
  C7. On an empty search-history store, submitting "dune", "arrival" and "dune" again at
  strictly increasing times and then listing the history with limit 2 gives the two
  entries "dune" (carrying the time of its second submission) and "arrival", in that order;
  the store holds two rows, not three. It is the listing that puts the most recent first
  and cuts at the limit: before the second "dune" the same listing gives "arrival", then
  "dune" with the time of its first submission, and after it the listing with limit 1
  gives "dune" alone.
\<close>

theorem search_history_upsert_order:
  assumes "search_history d = []" and "t1 < t2" and "t2 < t3"
  shows "getSearchHistory 2
           (addToSearchHistory t3 ''dune''
             (addToSearchHistory t2 ''arrival'' (addToSearchHistory t1 ''dune'' d)))
         = [\<lparr>query = ''dune'', searched_timestamp = t3\<rparr>,
            \<lparr>query = ''arrival'', searched_timestamp = t2\<rparr>] \<and>
         length (search_history
           (addToSearchHistory t3 ''dune''
             (addToSearchHistory t2 ''arrival'' (addToSearchHistory t1 ''dune'' d)))) = 2 \<and>
         getSearchHistory 2
           (addToSearchHistory t2 ''arrival'' (addToSearchHistory t1 ''dune'' d))
         = [\<lparr>query = ''arrival'', searched_timestamp = t2\<rparr>,
            \<lparr>query = ''dune'', searched_timestamp = t1\<rparr>] \<and>
         getSearchHistory 1
           (addToSearchHistory t3 ''dune''
             (addToSearchHistory t2 ''arrival'' (addToSearchHistory t1 ''dune'' d)))
         = [\<lparr>query = ''dune'', searched_timestamp = t3\<rparr>]"
  using assms utf16_dune_arrival
  by (simp add: getSearchHistory_def addToSearchHistory_def os_put_def os_get_def slice0_def)

theorem search_history_upsert_order_witness:
  "map query (getSearchHistory 2
     (addToSearchHistory 30 ''dune''
       (addToSearchHistory 20 ''arrival'' (addToSearchHistory 10 ''dune'' initDB))))
   = [''dune'', ''arrival''] \<and>
   map query (getSearchHistory 2
     (addToSearchHistory 20 ''arrival'' (addToSearchHistory 10 ''dune'' initDB)))
   = [''arrival'', ''dune''] \<and>
   map query (getSearchHistory 1
     (addToSearchHistory 30 ''dune''
       (addToSearchHistory 20 ''arrival'' (addToSearchHistory 10 ''dune'' initDB))))
   = [''dune'']"
  using search_history_upsert_order [of initDB 10 20 30]
  by (simp add: initDB_def)

subsection \<open>Response cache\<close>

text \<open>
  C6. For an entry stored under the key: a read at a time with
  \<open>now - storedAt > ttl\<close> returns null and removes that entry (and no other) from the
  cache store; a read with \<open>now - storedAt \<le> ttl\<close> returns the stored payload and changes
  nothing.
\<close>

theorem getCachedResponse_expiry:
  assumes "os_get key k (api_cache d) = Some e"
  shows "(now - timestamp e > ttl e \<longrightarrow>
            fst (getCachedResponse now k d) = JNull \<and>
            os_get key k (api_cache (snd (getCachedResponse now k d))) = None \<and>
            (\<forall>k'. k' \<noteq> k \<longrightarrow>
               os_get key k' (api_cache (snd (getCachedResponse now k d))) =
               os_get key k' (api_cache d))) \<and>
         (now - timestamp e \<le> ttl e \<longrightarrow> getCachedResponse now k d = (data e, d))"
  using assms
  by (auto simp: getCachedResponse_def os_get_delete_same os_get_delete_other)

theorem getCachedResponse_expiry_witness:
  "fst (getCachedResponse 600002 ''GET:/movie/popular:api_key=k''
      (cacheAPIResponse 1 ''GET:/movie/popular:api_key=k'' (JObj [(''page'', JNum 1)]) 10 initDB))
     = JNull \<and>
   getCachedResponse 600001 ''GET:/movie/popular:api_key=k''
      (cacheAPIResponse 1 ''GET:/movie/popular:api_key=k'' (JObj [(''page'', JNum 1)]) 10 initDB)
     = (JObj [(''page'', JNum 1)],
        cacheAPIResponse 1 ''GET:/movie/popular:api_key=k'' (JObj [(''page'', JNum 1)]) 10 initDB)"
  using getCachedResponse_expiry
    [of "''GET:/movie/popular:api_key=k''"
        "cacheAPIResponse 1 ''GET:/movie/popular:api_key=k'' (JObj [(''page'', JNum 1)]) 10 initDB"
        "\<lparr>key = ''GET:/movie/popular:api_key=k'', data = JObj [(''page'', JNum 1)],
          timestamp = 1, ttl = 600000\<rparr>" 600002]
    getCachedResponse_expiry
    [of "''GET:/movie/popular:api_key=k''"
        "cacheAPIResponse 1 ''GET:/movie/popular:api_key=k'' (JObj [(''page'', JNum 1)]) 10 initDB"
        "\<lparr>key = ''GET:/movie/popular:api_key=k'', data = JObj [(''page'', JNum 1)],
          timestamp = 1, ttl = 600000\<rparr>" 600001]
  by (simp add: cacheAPIResponse_def initDB_def os_put_def os_get_def)

section \<open>Properties of the API client\<close>

subsection \<open>The retry loop\<close>

lemma did_frame [simp]:
  "trace (did e c) = trace c @ [e]"
  "apiKey (did e c) = apiKey c"
  "baseURL (did e c) = baseURL c"
  "sent (did (Fetch url) c) = sent c @ [url]"
  "sent (did (Wait w) c) = sent c"
  "waited (did (Fetch url) c) = waited c"
  "waited (did (Wait w) c) = waited c @ [w]"
  by (simp_all add: did_def sent_def waited_def)

lemma parseRateLimitHeaders_frame [simp]:
  "trace (parseRateLimitHeaders r c) = trace c"
  "sent (parseRateLimitHeaders r c) = sent c"
  "waited (parseRateLimitHeaders r c) = waited c"
  "apiKey (parseRateLimitHeaders r c) = apiKey c"
  "baseURL (parseRateLimitHeaders r c) = baseURL c"
  by (simp_all add: parseRateLimitHeaders_def sent_def waited_def split: option.splits)

lemma sleep_frame [simp]:
  "trace (sleep w c) = trace c @ [Wait w]"
  "sent (sleep w c) = sent c"
  "waited (sleep w c) = waited c @ [w]"
  "apiKey (sleep w c) = apiKey c"
  "baseURL (sleep w c) = baseURL c"
  by (simp_all add: sleep_def)

lemma fetchWithRetry_frame:
  "fetchWithRetry nt url n c = (res, c') \<Longrightarrow> apiKey c' = apiKey c \<and> baseURL c' = baseURL c"
proof (induction n arbitrary: c res c')
  case 0
  then show ?case
    by (subst (asm) fetchWithRetry.simps) (auto simp: Let_def split: fetch_outcome.splits if_splits)
next
  case (Suc n)
  from Suc.prems show ?case
    apply (subst (asm) fetchWithRetry.simps)
    apply (auto simp: Let_def split: fetch_outcome.splits if_splits dest!: Suc.IH)
    done
qed

lemma fetchWithRetry_server_errors:
  assumes "\<forall>i. \<exists>r. nt i = Responds r \<and> status r = 503"
  shows "\<exists>r c'. fetchWithRetry nt url n c = (Inr r, c') \<and>
           nt (length (sent c) + n) = Responds r \<and>
           sent c' = sent c @ replicate (Suc n) url \<and>
           waited c' = waited c @ map backoff (rev [1..<Suc n]) \<and>
           trace c' = trace c @
             concat (map (\<lambda>k. [Fetch url, Wait (backoff k)]) (rev [1..<Suc n])) @ [Fetch url]"
proof (induction n arbitrary: c)
  case 0
  from assms obtain r where r: "nt (length (sent c)) = Responds r" "status r = 503"
    by blast
  then show ?case
    by (subst fetchWithRetry.simps) (simp add: Let_def)
next
  case (Suc n)
  from assms obtain r where r: "nt (length (sent c)) = Responds r" "status r = 503"
    by blast
  let ?c2 = "sleep (backoff (Suc n)) (parseRateLimitHeaders r (did (Fetch url) c))"
  from Suc [of ?c2] obtain r' c' where
    IH: "fetchWithRetry nt url n ?c2 = (Inr r', c')"
        "nt (length (sent ?c2) + n) = Responds r'"
        "sent c' = sent ?c2 @ replicate (Suc n) url"
        "waited c' = waited ?c2 @ map backoff (rev [1..<Suc n])"
        "trace c' = trace ?c2 @
           concat (map (\<lambda>k. [Fetch url, Wait (backoff k)]) (rev [1..<Suc n])) @ [Fetch url]"
    by blast
  have "fetchWithRetry nt url (Suc n) c = fetchWithRetry nt url n ?c2"
    using r by (subst fetchWithRetry.simps) (simp add: Let_def)
  with IH show ?case
    by (simp add: replicate_append_same)
qed

lemma backoff_values:
  "backoff 3 = Num 1000" "backoff 2 = Num 2000" "backoff (Suc 0) = Num 4000"
  by (simp_all add: backoff_def)

lemma upt_1_4: "[Suc 0..<4] = [Suc 0, 2, 3]"
  by (simp add: upt_rec)

lemma await_storage_simps [simp]:
  "await_storage None f d = (Inr (fst (f d)), snd (f d))"
  "await_storage (Some e) f d = (Inl e, d)"
  by (simp_all add: await_storage_def split: prod.splits)

lemma get_unfold:
  "get env endpoint params (c, d) =
     (case await_storage (storage_fault env CacheLookup)
             (getCachedResponse (clock env CacheLookup) (cacheKey_of (apiKey c) endpoint params)) d of
        (Inl e, d0) \<Rightarrow> (Inl (Err e), c, d0)
      | (Inr cached, d0) \<Rightarrow>
          if truthy cached then (Inr cached, c, d0)
          else (case get_try env endpoint (request_url c endpoint params)
                       (cacheKey_of (apiKey c) endpoint params) (c, d0) of
                  (Inl error, c1, d1) \<Rightarrow> get_catch env endpoint error (c1, d1)
                | (Inr payload, c1, d1) \<Rightarrow> (Inr payload, c1, d1)))"
  unfolding get_def cacheKey_of_def request_url_def Let_def by simp

lemma get_miss:
  assumes "storage_fault env CacheLookup = None"
    and "\<not> truthy (fst (getCachedResponse (clock env CacheLookup) (cacheKey_of (apiKey c) endpoint params) d))"
  shows "get env endpoint params (c, d) =
     (case get_try env endpoint (request_url c endpoint params)
             (cacheKey_of (apiKey c) endpoint params)
             (c, snd (getCachedResponse (clock env CacheLookup) (cacheKey_of (apiKey c) endpoint params) d)) of
        (Inl error, c1, d1) \<Rightarrow> get_catch env endpoint error (c1, d1)
      | (Inr payload, c1, d1) \<Rightarrow> (Inr payload, c1, d1))"
  using assms by (simp add: get_unfold)

lemma get_hit:
  assumes "storage_fault env CacheLookup = None"
    and "truthy (fst (getCachedResponse (clock env CacheLookup) (cacheKey_of (apiKey c) endpoint params) d))"
  shows "get env endpoint params (c, d) =
     (Inr (fst (getCachedResponse (clock env CacheLookup) (cacheKey_of (apiKey c) endpoint params) d)), c,
      snd (getCachedResponse (clock env CacheLookup) (cacheKey_of (apiKey c) endpoint params) d))"
  using assms by (simp add: get_unfold)

lemma get_catch_fails: "\<exists>err d'. get_catch env endpoint error (c, d) = (Inl err, c, d')"
  by (cases "storage_fault env TrackError") (simp_all add: get_catch_def)

lemma get_catch_tracked:
  assumes "storage_fault env TrackError = None"
  shows "get_catch env endpoint error (c, d) =
     (Inl (if isNetworkError error then network_error else error), c,
      snd (trackEvent (clock env TrackError) ''api_error'' (api_error_event endpoint error) d))"
  using assms by (simp add: get_catch_def)

lemma get_try_server_errors:
  assumes "\<forall>i. \<exists>r. net env i = Responds r \<and> status r = 503"
  shows "\<exists>r c'. get_try env endpoint url k (c, d) = (Inl (http_error r), c', d) \<and>
           net env (length (sent c) + 3) = Responds r \<and> status r = 503 \<and>
           sent c' = sent c @ replicate 4 url \<and>
           trace c' = trace c @
             [Fetch url, Wait (Num 1000), Fetch url, Wait (Num 2000), Fetch url,
              Wait (Num 4000), Fetch url]"
proof -
  from fetchWithRetry_server_errors [OF assms, of url 3 c] obtain r c' where
    f: "fetchWithRetry (net env) url 3 c = (Inr r, c')"
       "net env (length (sent c) + 3) = Responds r"
       "sent c' = sent c @ replicate (Suc 3) url"
       "trace c' = trace c @
          concat (map (\<lambda>k. [Fetch url, Wait (backoff k)]) (rev [1..<Suc 3])) @ [Fetch url]"
    by blast
  from assms f(2) have st: "status r = 503"
    by (metis fetch_outcome.inject(1))
  then have "\<not> ok r"
    by (simp add: ok_def)
  with f(1) have "get_try env endpoint url k (c, d) = (Inl (http_error r), c', d)"
    by (simp add: get_try_def)
  with f st show ?thesis
    by (simp add: backoff_values upt_1_4)
qed

lemma http_error_plain:
  assumes "body_json r \<noteq> Inr JNull"
    and "\<forall>kvs. body_json r = Inr (JObj kvs) \<longrightarrow>
           map_of kvs ''status_message'' \<noteq> Some (JStr ''Failed to fetch'') \<and>
           map_of kvs ''status_message'' \<noteq> Some (JStr ''Network request failed'')"
  shows "\<exists>msg. http_error r = APIError msg (Some (status r)) False \<and>
           \<not> isNetworkError (http_error r)"
  using assms
  by (auto simp: http_error_def status_message_of_def isNetworkError_def Let_def
           split: sum.splits json.splits option.splits)


subsection \<open>get\<close>

lemma steady_env_simps [simp]:
  "net (steady_env r t faults) i = Responds r"
  "clock (steady_env r t faults) s = t"
  "storage_fault (steady_env r t faults) = faults"
  by (simp_all add: steady_env_def)

lemma plain_response_simps [simp]:
  "status (plain_response st body) = st"
  "body_json (plain_response st body) = Inr body"
  by (simp_all add: plain_response_def)

lemma tmdbClient_simps [simp]:
  "trace tmdbClient = []" "sent tmdbClient = []" "waited tmdbClient = []"
  "apiKey tmdbClient = ''demo-key''"
  by (simp_all add: tmdbClient_def sent_def waited_def)

lemma getCachedResponse_initDB [simp]: "getCachedResponse now k initDB = (JNull, initDB)"
  by (simp add: getCachedResponse_def initDB_def os_get_def)

lemma get_catch_untracked:
  assumes "storage_fault env TrackError = Some e"
  shows "get_catch env endpoint error (c, d) = (Inl (Err e), c, d)"
  using assms by (simp add: get_catch_def)

lemma get_server_errors_untracked:
  assumes net: "\<forall>i. \<exists>r. net env i = Responds r \<and> status r = 503"
    and lookup: "storage_fault env CacheLookup = None"
    and miss: "\<not> truthy (fst (getCachedResponse (clock env CacheLookup)
                 (cacheKey_of (apiKey c) endpoint params) d))"
    and fault: "storage_fault env TrackError = Some e"
  shows "fst (get env endpoint params (c, d)) = Inl (Err e)"
proof -
  let ?d0 = "snd (getCachedResponse (clock env CacheLookup) (cacheKey_of (apiKey c) endpoint params) d)"
  from get_try_server_errors [OF net, of endpoint "request_url c endpoint params"
      "cacheKey_of (apiKey c) endpoint params" c ?d0]
  obtain r c' where
      "get_try env endpoint (request_url c endpoint params) (cacheKey_of (apiKey c) endpoint params) (c, ?d0)
         = (Inl (http_error r), c', ?d0)"
    by blast
  then show ?thesis
    by (simp add: get_miss [OF lookup miss] get_catch_untracked [OF fault])
qed

lemma get_server_errors_tracked:
  assumes net: "\<forall>i. net env i = Responds r" and st: "status r = 503"
    and lookup: "storage_fault env CacheLookup = None"
    and miss: "\<not> truthy (fst (getCachedResponse (clock env CacheLookup)
                 (cacheKey_of (apiKey c) endpoint params) d))"
    and track: "storage_fault env TrackError = None"
  shows "fst (get env endpoint params (c, d)) =
           Inl (if isNetworkError (http_error r) then network_error else http_error r)"
proof -
  let ?d0 = "snd (getCachedResponse (clock env CacheLookup) (cacheKey_of (apiKey c) endpoint params) d)"
  from net st have "\<forall>i. \<exists>r. net env i = Responds r \<and> status r = 503"
    by simp
  from get_try_server_errors [OF this, of endpoint "request_url c endpoint params"
      "cacheKey_of (apiKey c) endpoint params" c ?d0] net
  obtain c' where
      "get_try env endpoint (request_url c endpoint params) (cacheKey_of (apiKey c) endpoint params) (c, ?d0)
         = (Inl (http_error r), c', ?d0)"
    by auto
  then show ?thesis
    by (simp add: get_miss [OF lookup miss] get_catch_tracked [OF track])
qed

text \<open>
  Two bodies of a 503 response after which \<open>get\<close> reports a network failure and no status:
  a \<open>status_message\<close> that reads like a failed fetch, and the JSON value null.
\<close>

lemma get_server_errors_message_reclassified:
  "fst (get (steady_env (plain_response 503 (JObj [(''status_message'', JStr ''Failed to fetch'')]))
               1000 (\<lambda>s. None))
          ''/movie/popular'' [] (tmdbClient, initDB)) = Inl network_error"
  by (subst get_server_errors_tracked
        [where r = "plain_response 503 (JObj [(''status_message'', JStr ''Failed to fetch'')])"])
     (simp_all add: http_error_def status_message_of_def isNetworkError_def)

lemma get_server_errors_null_reclassified:
  "fst (get (steady_env (plain_response 503 JNull) 1000 (\<lambda>s. None))
          ''/movie/popular'' [] (tmdbClient, initDB)) = Inl network_error"
  by (subst get_server_errors_tracked [where r = "plain_response 503 JNull"])
     (simp_all add: http_error_def status_message_of_def isNetworkError_def
        null_property_error_def)

text \<open>
  C1. A call of \<open>get\<close> that is not served from the cache and whose every network attempt
  is answered with status 503 makes exactly four attempts, waits 1000, 2000 and 4000 ms
  before the second, third and fourth (its trace grows by fetch, wait 1000, fetch, wait
  2000, fetch, wait 4000, fetch), and then fails. When the \<open>api_error\<close> usage event
  can be written, and the last body is neither JSON null nor carries one of the two
  messages that the handler takes for a network failure, the failure is the HTTP error
  object with status 503 and \<open>isNetworkError\<close> false.
\<close>

theorem get_server_errors_exhaust_retries:
  assumes net: "\<forall>i. \<exists>r. net env i = Responds r \<and> status r = 503"
    and lookup: "storage_fault env CacheLookup = None"
    and miss: "\<not> truthy (fst (getCachedResponse (clock env CacheLookup)
                 (cacheKey_of (apiKey c) endpoint params) d))"
  shows "\<exists>err c' d' r.
           get env endpoint params (c, d) = (Inl err, c', d') \<and>
           sent c' = sent c @ replicate 4 (request_url c endpoint params) \<and>
           trace c' = trace c @
             [Fetch (request_url c endpoint params), Wait (Num 1000),
              Fetch (request_url c endpoint params), Wait (Num 2000),
              Fetch (request_url c endpoint params), Wait (Num 4000),
              Fetch (request_url c endpoint params)] \<and>
           net env (length (sent c) + 3) = Responds r \<and>
           (storage_fault env TrackError = None \<and> body_json r \<noteq> Inr JNull \<and>
            (\<forall>kvs. body_json r = Inr (JObj kvs) \<longrightarrow>
               map_of kvs ''status_message'' \<noteq> Some (JStr ''Failed to fetch'') \<and>
               map_of kvs ''status_message'' \<noteq> Some (JStr ''Network request failed''))
            \<longrightarrow> (\<exists>msg. err = APIError msg (Some 503) False))"
proof -
  let ?d0 = "snd (getCachedResponse (clock env CacheLookup) (cacheKey_of (apiKey c) endpoint params) d)"
  let ?url = "request_url c endpoint params"
  from get_try_server_errors [OF net, of endpoint ?url "cacheKey_of (apiKey c) endpoint params" c ?d0]
  obtain r c' where t:
      "get_try env endpoint ?url (cacheKey_of (apiKey c) endpoint params) (c, ?d0)
         = (Inl (http_error r), c', ?d0)"
      "net env (length (sent c) + 3) = Responds r" "status r = 503"
      "sent c' = sent c @ replicate 4 ?url"
      "trace c' = trace c @
         [Fetch ?url, Wait (Num 1000), Fetch ?url, Wait (Num 2000), Fetch ?url,
          Wait (Num 4000), Fetch ?url]"
    by blast
  from t(1) have g: "get env endpoint params (c, d) = get_catch env endpoint (http_error r) (c', ?d0)"
    by (simp add: get_miss [OF lookup miss])
  from get_catch_fails [of env endpoint "http_error r" c' ?d0] obtain err d' where
    f: "get_catch env endpoint (http_error r) (c', ?d0) = (Inl err, c', d')"
    by blast
  have "\<exists>msg. err = APIError msg (Some 503) False"
    if ok: "storage_fault env TrackError = None" and b1: "body_json r \<noteq> Inr JNull"
      and b2: "\<forall>kvs. body_json r = Inr (JObj kvs) \<longrightarrow>
               map_of kvs ''status_message'' \<noteq> Some (JStr ''Failed to fetch'') \<and>
               map_of kvs ''status_message'' \<noteq> Some (JStr ''Network request failed'')"
  proof -
    from http_error_plain [OF b1 b2] t(3) obtain msg where
      m: "http_error r = APIError msg (Some 503) False" "\<not> isNetworkError (http_error r)"
      by auto
    from f have "err = (if isNetworkError (http_error r) then network_error else http_error r)"
      by (simp add: get_catch_tracked [OF ok])
    with m(2) have "err = http_error r"
      by simp
    with m(1) show ?thesis
      by blast
  qed
  with g f t show ?thesis
    by auto
qed


theorem get_server_errors_exhaust_retries_witness:
  "\<exists>msg c' d'.
     get (steady_env (plain_response 503 (JObj [(''status_message'', JStr ''Service Unavailable'')]))
            1000 (\<lambda>s. None))
       ''/movie/popular'' [] (tmdbClient, initDB) = (Inl (APIError msg (Some 503) False), c', d') \<and>
     trace c' =
       [Fetch (request_url tmdbClient ''/movie/popular'' []), Wait (Num 1000),
        Fetch (request_url tmdbClient ''/movie/popular'' []), Wait (Num 2000),
        Fetch (request_url tmdbClient ''/movie/popular'' []), Wait (Num 4000),
        Fetch (request_url tmdbClient ''/movie/popular'' [])]"
  using get_server_errors_exhaust_retries
    [of "steady_env (plain_response 503 (JObj [(''status_message'', JStr ''Service Unavailable'')]))
            1000 (\<lambda>s. None)" tmdbClient "''/movie/popular''" "[]" initDB]
  by auto

text \<open>
  When every attempt is answered with 503 but the \<open>api_error\<close> event cannot be written,
  the rejection of that write is what \<open>get\<close> throws, not the HTTP error.
\<close>

theorem get_server_errors_counterexample:
  "fst (get (steady_env (plain_response 503 (JObj [(''status_message'', JStr ''Service Unavailable'')]))
               1000 (\<lambda>s. if s = TrackError then Some quota_exceeded else None))
          ''/movie/popular'' [] (tmdbClient, initDB)) = Inl (Err quota_exceeded)"
  by (rule get_server_errors_untracked) simp_all

lemma fetchWithRetry_answered:
  assumes "nt (length (sent c)) = Responds r" and "status r < 500" and "status r \<noteq> 429"
  shows "fetchWithRetry nt url n c = (Inr r, parseRateLimitHeaders r (did (Fetch url) c))"
  using assms by (subst fetchWithRetry.simps) (simp add: Let_def)

lemma get_try_answered:
  assumes "fetchWithRetry (net env) url 3 c = (Inr r, c1)" and "ok r"
    and "body_json r = Inr payload" and "storage_fault env CacheStore = None"
  shows "get_try env endpoint url k (c, d) =
           (case storage_fault env TrackCall of
              Some e \<Rightarrow> (Inl (Err e), c1, cacheAPIResponse (clock env CacheStore) k payload 10 d)
            | None \<Rightarrow>
                (Inr payload, c1,
                 snd (trackEvent (clock env TrackCall) ''api_call'' (api_call_event endpoint r)
                        (cacheAPIResponse (clock env CacheStore) k payload 10 d))))"
  using assms by (cases "storage_fault env TrackCall") (simp_all add: get_try_def)

lemma cacheAPIResponse_stored:
  "os_get key k (api_cache (cacheAPIResponse now k payload m d)) =
     Some \<lparr>key = k, data = payload, timestamp = now, ttl = m * 60 * 1000\<rparr>"
  using os_get_put_same [of key "\<lparr>key = k, data = payload, timestamp = now, ttl = m * 60 * 1000\<rparr>" "api_cache d"]
  by (simp add: cacheAPIResponse_def)

lemma trackEvent_frame [simp]:
  "api_cache (snd (trackEvent now a p d)) = api_cache d"
  "analytics (snd (trackEvent now a p d)) =
     analytics d @ [\<lparr>action = a, event_data = p, event_timestamp = now\<rparr>]"
  by (simp_all add: trackEvent_def)

lemma cacheAPIResponse_analytics [simp]:
  "analytics (cacheAPIResponse now k payload m d) = analytics d"
  by (simp add: cacheAPIResponse_def)

lemma getCachedResponse_analytics [simp]:
  "analytics (snd (getCachedResponse now k d)) = analytics d"
  by (simp add: getCachedResponse_def Let_def split: option.splits)

lemma get_api_call_event_fault:
  assumes lookup: "storage_fault env CacheLookup = None"
    and miss: "\<not> truthy (fst (getCachedResponse (clock env CacheLookup)
                 (cacheKey_of (apiKey c) endpoint params) d))"
    and fetch: "fetchWithRetry (net env) (request_url c endpoint params) 3 c = (Inr r, c1)"
    and ok: "ok r" and body: "body_json r = Inr payload"
    and store: "storage_fault env CacheStore = None"
    and fault: "storage_fault env TrackCall = Some e"
  shows "\<exists>d'. get env endpoint params (c, d) =
           (Inl (case storage_fault env TrackError of
                   Some e' \<Rightarrow> Err e'
                 | None \<Rightarrow> if isNetworkError (Err e) then network_error else Err e), c1, d') \<and>
           os_get key (cacheKey_of (apiKey c) endpoint params) (api_cache d') =
             Some \<lparr>key = cacheKey_of (apiKey c) endpoint params, data = payload,
                   timestamp = clock env CacheStore, ttl = 600000\<rparr>"
proof -
  let ?k = "cacheKey_of (apiKey c) endpoint params"
  let ?d0 = "snd (getCachedResponse (clock env CacheLookup) ?k d)"
  let ?d1 = "cacheAPIResponse (clock env CacheStore) ?k payload 10 ?d0"
  have t: "get_try env endpoint (request_url c endpoint params) ?k (c, ?d0) = (Inl (Err e), c1, ?d1)"
    by (simp add: get_try_answered [OF fetch ok body store] fault)
  have s: "os_get key ?k (api_cache ?d1) =
      Some \<lparr>key = ?k, data = payload, timestamp = clock env CacheStore, ttl = 600000\<rparr>"
    using cacheAPIResponse_stored [of ?k "clock env CacheStore" payload 10 ?d0] by simp
  show ?thesis
  proof (cases "storage_fault env TrackError")
    case None
    with t s show ?thesis
      by (simp add: get_miss [OF lookup miss] get_catch_tracked)
  next
    case (Some e')
    with t s show ?thesis
      by (simp add: get_miss [OF lookup miss] get_catch_untracked)
  qed
qed

text \<open>
  C5. \<open>get\<close> does not shield its result from the usage-event write. When the cache
  lookup misses, the fetch is answered with an ok response whose body parses, and the
  cache write succeeds, but the \<open>api_call\<close> event write is rejected, \<open>get\<close> fails although
  the payload is already in the cache: with the rejection of the \<open>api_error\<close> write if
  that is rejected too, else with the first rejection (or the generic network error, if
  that rejection counts as a network failure).
\<close>

theorem get_fails_when_usage_event_fails:
  assumes "storage_fault env CacheLookup = None"
    and "\<not> truthy (fst (getCachedResponse (clock env CacheLookup)
                 (cacheKey_of (apiKey c) endpoint params) d))"
    and "fetchWithRetry (net env) (request_url c endpoint params) 3 c = (Inr r, c1)"
    and "ok r" and "body_json r = Inr payload"
    and "storage_fault env CacheStore = None"
    and "storage_fault env TrackCall = Some e"
  shows "\<exists>d'. get env endpoint params (c, d) =
           (Inl (case storage_fault env TrackError of
                   Some e' \<Rightarrow> Err e'
                 | None \<Rightarrow> if isNetworkError (Err e) then network_error else Err e), c1, d') \<and>
           os_get key (cacheKey_of (apiKey c) endpoint params) (api_cache d') =
             Some \<lparr>key = cacheKey_of (apiKey c) endpoint params, data = payload,
                   timestamp = clock env CacheStore, ttl = 600000\<rparr>"
  using assms by (rule get_api_call_event_fault)

theorem get_fails_when_usage_event_fails_witness:
  "fst (get (steady_env (plain_response 200 (JObj [(''page'', JNum 1)])) 1000
               (\<lambda>s. if s = TrackCall then Some quota_exceeded else None))
          ''/movie/popular'' [] (tmdbClient, initDB)) = Inl (Err quota_exceeded)"
  using get_fails_when_usage_event_fails
    [of "steady_env (plain_response 200 (JObj [(''page'', JNum 1)])) 1000
               (\<lambda>s. if s = TrackCall then Some quota_exceeded else None)"
        tmdbClient "''/movie/popular''" "[]" initDB
        "plain_response 200 (JObj [(''page'', JNum 1)])"
        "parseRateLimitHeaders (plain_response 200 (JObj [(''page'', JNum 1)]))
           (did (Fetch (request_url tmdbClient ''/movie/popular'' [])) tmdbClient)"
        "JObj [(''page'', JNum 1)]" quota_exceeded]
  by (auto simp: fetchWithRetry_answered ok_def isNetworkError_def quota_exceeded_def)

text \<open>
  With the analytics store out of quota, a fetch that succeeded and was cached is reported
  to the caller as a failure.
\<close>

theorem get_usage_event_counterexample:
  "fst (get (steady_env (plain_response 200 (JObj [(''page'', JNum 1)])) 1000
               (\<lambda>s. if s = TrackCall \<or> s = TrackError then Some quota_exceeded else None))
          ''/movie/popular'' [] (tmdbClient, initDB)) = Inl (Err quota_exceeded)"
proof -
  let ?r = "plain_response 200 (JObj [(''page'', JNum 1)])"
  let ?env = "steady_env ?r 1000 (\<lambda>s. if s = TrackCall \<or> s = TrackError then Some quota_exceeded else None)"
  have "\<exists>d'. get ?env ''/movie/popular'' [] (tmdbClient, initDB) =
           (Inl (case storage_fault ?env TrackError of
                   Some e' \<Rightarrow> Err e'
                 | None \<Rightarrow> if isNetworkError (Err quota_exceeded) then network_error else Err quota_exceeded),
            parseRateLimitHeaders ?r
              (did (Fetch (request_url tmdbClient ''/movie/popular'' [])) tmdbClient), d') \<and>
           os_get key (cacheKey_of (apiKey tmdbClient) ''/movie/popular'' []) (api_cache d') =
             Some \<lparr>key = cacheKey_of (apiKey tmdbClient) ''/movie/popular'' [],
                   data = JObj [(''page'', JNum 1)],
                   timestamp = clock ?env CacheStore, ttl = 600000\<rparr>"
    by (rule get_api_call_event_fault [where r = ?r]) (simp_all add: fetchWithRetry_answered ok_def)
  then show ?thesis
    by auto
qed

lemma initDB_simps [simp]:
  "favorites initDB = []" "search_history initDB = []" "api_cache initDB = []"
  "preferences initDB = []" "analytics initDB = []"
  by (simp_all add: initDB_def)

lemma get_fetched:
  assumes lookup: "storage_fault env CacheLookup = None"
    and miss: "\<not> truthy (fst (getCachedResponse (clock env CacheLookup)
                 (cacheKey_of (apiKey c) endpoint params) d))"
    and answer: "net env (length (sent c)) = Responds r"
    and ok: "ok r" and body: "body_json r = Inr payload"
    and store: "storage_fault env CacheStore = None"
    and track: "storage_fault env TrackCall = None"
  shows "get env endpoint params (c, d) =
           (Inr payload,
            parseRateLimitHeaders r (did (Fetch (request_url c endpoint params)) c),
            snd (trackEvent (clock env TrackCall) ''api_call'' (api_call_event endpoint r)
                   (cacheAPIResponse (clock env CacheStore) (cacheKey_of (apiKey c) endpoint params)
                      payload 10
                      (snd (getCachedResponse (clock env CacheLookup)
                              (cacheKey_of (apiKey c) endpoint params) d)))))"
proof -
  from ok have "status r < 500" and "status r \<noteq> 429"
    by (simp_all add: ok_def)
  with answer have
    "fetchWithRetry (net env) (request_url c endpoint params) 3 c =
       (Inr r, parseRateLimitHeaders r (did (Fetch (request_url c endpoint params)) c))"
    by (rule fetchWithRetry_answered)
  from get_try_answered [OF this ok body store] track show ?thesis
    by (simp add: get_miss [OF lookup miss])
qed

lemma get_try_success:
  assumes "get_try env endpoint url k (c, d) = (Inr payload, c1, d1)"
  shows "\<exists>r. fetchWithRetry (net env) url 3 c = (Inr r, c1) \<and> ok r \<and>
           d1 = snd (trackEvent (clock env TrackCall) ''api_call'' (api_call_event endpoint r)
                       (cacheAPIResponse (clock env CacheStore) k payload 10 d))"
proof (cases "fetchWithRetry (net env) url 3 c")
  case (Pair res c')
  show ?thesis
  proof (cases res)
    case (Inl e)
    with Pair assms show ?thesis by (simp add: get_try_def)
  next
    case (Inr r)
    with Pair assms show ?thesis
      by (cases "storage_fault env CacheStore"; cases "storage_fault env TrackCall")
         (auto simp: get_try_def split: if_splits sum.splits)
  qed
qed

lemma http_error_text:
  "error_text (http_error r) =
     (if body_json r = Inr JNull
      then ''Cannot read properties of null (reading 'status_message')''
      else ''Unknown error'')"
  by (auto simp: error_text_def http_error_def status_message_of_def null_property_error_def
        Let_def split: sum.splits json.splits)

lemma get_try_cases:
  assumes fetch: "fetchWithRetry (net env) url 3 c = (fr, c1)"
    and track: "storage_fault env TrackCall = None"
  shows "get_try env endpoint url k (c, d) =
     (case fr of
        Inl e \<Rightarrow> (Inl (Err e), c1, d)
      | Inr r \<Rightarrow>
          if \<not> ok r then (Inl (http_error r), c1, d)
          else (case body_json r of
                  Inl e \<Rightarrow> (Inl (Err e), c1, d)
                | Inr payload \<Rightarrow>
                    (case storage_fault env CacheStore of
                       Some e \<Rightarrow> (Inl (Err e), c1, d)
                     | None \<Rightarrow>
                         (Inr payload, c1,
                          snd (trackEvent (clock env TrackCall) ''api_call''
                                 (api_call_event endpoint r)
                                 (cacheAPIResponse (clock env CacheStore) k payload 10 d))))))"
  using assms
  by (auto simp: get_try_def split: sum.splits option.splits)

text \<open>
  C4. A call of \<open>get\<close> that is not served from the cache, with the usage-event writes
  going through, records exactly one usage event, at the end of the analytics store. When
  the fetch returns an ok response whose body parses and the cache write succeeds, \<open>get\<close>
  returns the payload and the event is \<open>api_call\<close> with the endpoint, the status of that
  response and \<open>cached: false\<close>. In every other case \<open>get\<close> fails and the event is
  \<open>api_error\<close> with the endpoint and an error text: the message of the error that the
  fetch, the body or the cache write threw; \<open>Unknown error\<close> for a response that is not ok;
  the message of the \<open>TypeError\<close> when the body of such a response is JSON null.
\<close>

theorem get_miss_records_one_event:
  assumes lookup: "storage_fault env CacheLookup = None"
    and miss: "\<not> truthy (fst (getCachedResponse (clock env CacheLookup)
                 (cacheKey_of (apiKey c) endpoint params) d))"
    and track1: "storage_fault env TrackCall = None"
    and track2: "storage_fault env TrackError = None"
    and fetch: "fetchWithRetry (net env) (request_url c endpoint params) 3 c = (fr, c1)"
    and run: "get env endpoint params (c, d) = (res, c', d')"
  shows "let api_error = (\<lambda>text.
               \<lparr>action = ''api_error'',
                event_data = JObj [(''endpoint'', JStr endpoint), (''error'', JStr text)],
                event_timestamp = clock env TrackError\<rparr>)
         in case fr of
              Inl e \<Rightarrow>
                (\<exists>x. res = Inl x) \<and> analytics d' = analytics d @ [api_error (err_message e)]
            | Inr r \<Rightarrow>
                if \<not> ok r then
                  (\<exists>x. res = Inl x) \<and>
                  analytics d' = analytics d @
                    [api_error
                       (if body_json r = Inr JNull
                        then ''Cannot read properties of null (reading 'status_message')''
                        else ''Unknown error'')]
                else
                  (case body_json r of
                     Inl e \<Rightarrow>
                       (\<exists>x. res = Inl x) \<and>
                       analytics d' = analytics d @ [api_error (err_message e)]
                   | Inr payload \<Rightarrow>
                       (case storage_fault env CacheStore of
                          Some e \<Rightarrow>
                            (\<exists>x. res = Inl x) \<and>
                            analytics d' = analytics d @ [api_error (err_message e)]
                        | None \<Rightarrow>
                            res = Inr payload \<and>
                            analytics d' = analytics d @
                              [\<lparr>action = ''api_call'',
                                event_data = JObj [(''endpoint'', JStr endpoint),
                                                   (''status'', JNum (int (status r))),
                                                   (''cached'', JBool False)],
                                event_timestamp = clock env TrackCall\<rparr>]))"
proof -
  let ?k = "cacheKey_of (apiKey c) endpoint params"
  let ?d0 = "snd (getCachedResponse (clock env CacheLookup) ?k d)"
  note t = get_try_cases [OF fetch track1, of endpoint ?k ?d0]
  note g = run [unfolded get_miss [OF lookup miss] t]
  show ?thesis
  proof (cases fr)
    case (Inl e)
    with g show ?thesis
      by (auto simp: get_catch_tracked [OF track2] api_error_event_def error_text_def)
  next
    case (Inr r)
    show ?thesis
    proof (cases "ok r")
      case False
      with Inr g http_error_text [of r] show ?thesis
        by (auto simp: get_catch_tracked [OF track2] api_error_event_def)
    next
      case True
      show ?thesis
      proof (cases "body_json r")
        case (Inl e)
        with True Inr g show ?thesis
          by (auto simp: get_catch_tracked [OF track2] api_error_event_def error_text_def)
      next
        case body: (Inr payload)
        show ?thesis
        proof (cases "storage_fault env CacheStore")
          case None
          with body True Inr g show ?thesis
            by (auto simp: api_call_event_def)
        next
          case (Some e)
          with body True Inr g show ?thesis
            by (auto simp: get_catch_tracked [OF track2] api_error_event_def error_text_def)
        qed
      qed
    qed
  qed
qed


theorem get_miss_records_one_event_witness:
  "analytics (snd (snd
     (get (steady_env (plain_response 404 (JObj [(''status_message'', JStr ''Not found'')])) 1000
             (\<lambda>s. None))
        ''/movie/0'' [] (tmdbClient, initDB))))
   = [\<lparr>action = ''api_error'',
       event_data = JObj [(''endpoint'', JStr ''/movie/0''), (''error'', JStr ''Unknown error'')],
       event_timestamp = 1000\<rparr>] \<and>
   analytics (snd (snd
     (get (steady_env (plain_response 200 (JObj [(''page'', JNum 1)])) 1000 (\<lambda>s. None))
        ''/movie/popular'' [] (tmdbClient, initDB))))
   = [\<lparr>action = ''api_call'',
       event_data = JObj [(''endpoint'', JStr ''/movie/popular''), (''status'', JNum 200),
                          (''cached'', JBool False)],
       event_timestamp = 1000\<rparr>]"
proof -
  let ?r1 = "plain_response 404 (JObj [(''status_message'', JStr ''Not found'')])"
  let ?env1 = "steady_env ?r1 1000 (\<lambda>s. None)"
  let ?g1 = "get ?env1 ''/movie/0'' [] (tmdbClient, initDB)"
  let ?r2 = "plain_response 200 (JObj [(''page'', JNum 1)])"
  let ?env2 = "steady_env ?r2 1000 (\<lambda>s. None)"
  let ?g2 = "get ?env2 ''/movie/popular'' [] (tmdbClient, initDB)"
  have f1: "fetchWithRetry (net ?env1) (request_url tmdbClient ''/movie/0'' []) 3 tmdbClient =
      (Inr ?r1, parseRateLimitHeaders ?r1 (did (Fetch (request_url tmdbClient ''/movie/0'' [])) tmdbClient))"
    by (rule fetchWithRetry_answered) simp_all
  have f2: "fetchWithRetry (net ?env2) (request_url tmdbClient ''/movie/popular'' []) 3 tmdbClient =
      (Inr ?r2, parseRateLimitHeaders ?r2 (did (Fetch (request_url tmdbClient ''/movie/popular'' [])) tmdbClient))"
    by (rule fetchWithRetry_answered) simp_all
  have g1: "?g1 = (fst ?g1, fst (snd ?g1), snd (snd ?g1))" and g2: "?g2 = (fst ?g2, fst (snd ?g2), snd (snd ?g2))"
    by simp_all
  from get_miss_records_one_event [OF _ _ _ _ f1 g1] get_miss_records_one_event [OF _ _ _ _ f2 g2]
  show ?thesis
    by (simp add: ok_def Let_def)
qed

text \<open>A call served from the cache succeeds and records no event.\<close>

theorem get_cache_hit_counterexample:
  "get (steady_env (plain_response 200 (JObj [(''page'', JNum 2)])) 1000 (\<lambda>s. None))
     ''/movie/popular'' []
     (tmdbClient,
      cacheAPIResponse 0 ''GET:/movie/popular:api_key=demo-key'' (JObj [(''page'', JNum 1)]) 10 initDB)
   = (Inr (JObj [(''page'', JNum 1)]), tmdbClient,
      cacheAPIResponse 0 ''GET:/movie/popular:api_key=demo-key'' (JObj [(''page'', JNum 1)]) 10 initDB) \<and>
   analytics (cacheAPIResponse 0 ''GET:/movie/popular:api_key=demo-key''
                (JObj [(''page'', JNum 1)]) 10 initDB) = []"
proof -
  have k: "cacheKey_of ''demo-key'' ''/movie/popular'' [] = ''GET:/movie/popular:api_key=demo-key''"
    by (simp add: cacheKey_of_def spread_params_def URLSearchParams_toString_def urlencode_def
          urlencode_byte_def)
  let ?d = "cacheAPIResponse 0 ''GET:/movie/popular:api_key=demo-key'' (JObj [(''page'', JNum 1)]) 10 initDB"
  have c: "getCachedResponse 1000 ''GET:/movie/popular:api_key=demo-key'' ?d = (JObj [(''page'', JNum 1)], ?d)"
    using cacheAPIResponse_stored [of "''GET:/movie/popular:api_key=demo-key''" 0 "JObj [(''page'', JNum 1)]" 10 initDB]
    by (simp add: getCachedResponse_def)
  show ?thesis
    by (simp add: get_hit k c)
qed

lemma getCachedResponse_live:
  assumes "os_get key k (api_cache d) = Some e" and "now - timestamp e \<le> ttl e"
  shows "getCachedResponse now k d = (data e, d)"
  using assms by (simp add: getCachedResponse_def)

text \<open>
  C3. When a call of \<open>get\<close> fetches a payload from the network and returns it, and the
  payload is truthy, a second call with the same endpoint and parameters whose cache
  lookup happens no later than 600000 ms after the payload was stored returns the same
  payload and leaves the client, its list of sent requests included, and the database as
  they were.
\<close>

theorem get_twice_within_ttl:
  assumes first: "get env1 endpoint params (c, d) = (Inr payload, c1, d1)"
    and fetched: "sent c1 \<noteq> sent c"
    and truthy: "truthy payload"
    and lookup2: "storage_fault env2 CacheLookup = None"
    and fresh: "clock env2 CacheLookup - clock env1 CacheStore \<le> 600000"
  shows "get env2 endpoint params (c1, d1) = (Inr payload, c1, d1)"
proof -
  let ?k = "cacheKey_of (apiKey c) endpoint params"
  let ?url = "request_url c endpoint params"
  let ?look = "getCachedResponse (clock env1 CacheLookup) ?k d"
  have lookup1: "storage_fault env1 CacheLookup = None"
  proof (cases "storage_fault env1 CacheLookup")
    case (Some e)
    with first show ?thesis by (simp add: get_unfold)
  qed simp
  have miss: "\<not> truthy (fst ?look)"
  proof
    assume "truthy (fst ?look)"
    from get_hit [OF lookup1 this] first have "c1 = c" by simp
    with fetched show False by simp
  qed
  obtain res c' d' where t: "get_try env1 endpoint ?url ?k (c, snd ?look) = (res, c', d')"
    by (cases "get_try env1 endpoint ?url ?k (c, snd ?look)") auto
  have t': "get_try env1 endpoint ?url ?k (c, snd ?look) = (Inr payload, c1, d1)"
  proof (cases res)
    case (Inl err)
    from get_catch_fails [of env1 endpoint err c' d'] obtain err' d'' where
      "get_catch env1 endpoint err (c', d') = (Inl err', c', d'')"
      by blast
    with t Inl first show ?thesis
      by (simp add: get_miss [OF lookup1 miss])
  next
    case (Inr p)
    with t first show ?thesis
      by (simp add: get_miss [OF lookup1 miss])
  qed
  from get_try_success [OF t'] obtain r where
    f: "fetchWithRetry (net env1) ?url 3 c = (Inr r, c1)"
    and d1: "d1 = snd (trackEvent (clock env1 TrackCall) ''api_call'' (api_call_event endpoint r)
                       (cacheAPIResponse (clock env1 CacheStore) ?k payload 10 (snd ?look)))"
    by blast
  from fetchWithRetry_frame [OF f] have key: "cacheKey_of (apiKey c1) endpoint params = ?k"
    by simp
  have stored: "os_get key ?k (api_cache d1) =
      Some \<lparr>key = ?k, data = payload, timestamp = clock env1 CacheStore, ttl = 10 * 60 * 1000\<rparr>"
    unfolding d1 by (simp add: cacheAPIResponse_stored)
  from fresh have "getCachedResponse (clock env2 CacheLookup) ?k d1 = (payload, d1)"
    using getCachedResponse_live [OF stored, of "clock env2 CacheLookup"] by simp
  with truthy show ?thesis
    using get_hit [OF lookup2, of c1 endpoint params d1] by (simp add: key)
qed

lemma demo_key_popular:
  "cacheKey_of ''demo-key'' ''/movie/popular'' [] = ''GET:/movie/popular:api_key=demo-key''"
  by (simp add: cacheKey_of_def spread_params_def URLSearchParams_toString_def urlencode_def
        urlencode_byte_def)

theorem get_twice_within_ttl_witness:
  "get (steady_env (plain_response 503 (JObj [])) 601000 (\<lambda>s. None)) ''/movie/popular'' []
     (snd (get (steady_env (plain_response 200 (JObj [(''page'', JNum 1)])) 1000 (\<lambda>s. None))
             ''/movie/popular'' [] (tmdbClient, initDB)))
   = (Inr (JObj [(''page'', JNum 1)]),
      snd (get (steady_env (plain_response 200 (JObj [(''page'', JNum 1)])) 1000 (\<lambda>s. None))
             ''/movie/popular'' [] (tmdbClient, initDB)))"
proof -
  let ?r = "plain_response 200 (JObj [(''page'', JNum 1)])"
  let ?env1 = "steady_env ?r 1000 (\<lambda>s. None)"
  let ?env2 = "steady_env (plain_response 503 (JObj [])) 601000 (\<lambda>s. None)"
  let ?c1 = "parseRateLimitHeaders ?r
               (did (Fetch (request_url tmdbClient ''/movie/popular'' [])) tmdbClient)"
  let ?d1 = "snd (trackEvent (clock ?env1 TrackCall) ''api_call'' (api_call_event ''/movie/popular'' ?r)
                   (cacheAPIResponse (clock ?env1 CacheStore)
                      (cacheKey_of (apiKey tmdbClient) ''/movie/popular'' [])
                      (JObj [(''page'', JNum 1)]) 10
                      (snd (getCachedResponse (clock ?env1 CacheLookup)
                              (cacheKey_of (apiKey tmdbClient) ''/movie/popular'' []) initDB))))"
  have g: "get ?env1 ''/movie/popular'' [] (tmdbClient, initDB) = (Inr (JObj [(''page'', JNum 1)]), ?c1, ?d1)"
    by (rule get_fetched [where r = ?r]) (simp_all add: ok_def)
  have "get ?env2 ''/movie/popular'' [] (?c1, ?d1) = (Inr (JObj [(''page'', JNum 1)]), ?c1, ?d1)"
    by (rule get_twice_within_ttl [OF g]) simp_all
  with g show ?thesis
    by simp
qed

text \<open>
  A payload that is falsy in JavaScript (here the number 0) is stored but not served: the
  second call, one second later, goes to the network again.
\<close>

theorem get_twice_falsy_payload_counterexample:
  "fst (get (steady_env (plain_response 200 (JNum 0)) 1000 (\<lambda>s. None))
          ''/movie/popular'' [] (tmdbClient, initDB)) = Inr (JNum 0) \<and>
   length (sent (fst (snd
     (get (steady_env (plain_response 200 (JNum 0)) 1000 (\<lambda>s. None))
        ''/movie/popular'' [] (tmdbClient, initDB))))) = 1 \<and>
   length (sent (fst (snd
     (get (steady_env (plain_response 200 (JNum 0)) 2000 (\<lambda>s. None)) ''/movie/popular'' []
        (snd (get (steady_env (plain_response 200 (JNum 0)) 1000 (\<lambda>s. None))
                ''/movie/popular'' [] (tmdbClient, initDB))))))) = 2"
proof -
  let ?r = "plain_response 200 (JNum 0)"
  let ?env1 = "steady_env ?r 1000 (\<lambda>s. None)"
  let ?env2 = "steady_env ?r 2000 (\<lambda>s. None)"
  let ?k = "cacheKey_of (apiKey tmdbClient) ''/movie/popular'' []"
  let ?c1 = "parseRateLimitHeaders ?r
               (did (Fetch (request_url tmdbClient ''/movie/popular'' [])) tmdbClient)"
  let ?d1 = "snd (trackEvent (clock ?env1 TrackCall) ''api_call'' (api_call_event ''/movie/popular'' ?r)
                   (cacheAPIResponse (clock ?env1 CacheStore) ?k (JNum 0) 10
                      (snd (getCachedResponse (clock ?env1 CacheLookup) ?k initDB))))"
  let ?c2 = "parseRateLimitHeaders ?r
               (did (Fetch (request_url ?c1 ''/movie/popular'' [])) ?c1)"
  have g: "get ?env1 ''/movie/popular'' [] (tmdbClient, initDB) = (Inr (JNum 0), ?c1, ?d1)"
    by (rule get_fetched [where r = ?r]) (simp_all add: ok_def)
  have look: "getCachedResponse 2000 ?k ?d1 = (JNum 0, ?d1)"
    by (rule getCachedResponse_live
          [where e = "\<lparr>key = ?k, data = JNum 0, timestamp = 1000, ttl = 10 * 60 * 1000\<rparr>",
           simplified])
       (simp_all add: cacheAPIResponse_stored)
  have "\<exists>d2. get ?env2 ''/movie/popular'' [] (?c1, ?d1) = (Inr (JNum 0), ?c2, d2)"
    by (rule exI, rule get_fetched [where r = ?r]) (simp_all add: ok_def look [simplified])
  with g show ?thesis
    by auto
qed

subsection \<open>The cache key\<close>

lemma js_set_append:
  "k \<notin> fst ` set xs \<Longrightarrow> \<not> is_array_index k \<Longrightarrow> js_set k v xs = xs @ [(k, v)]"
  by (induction xs) auto

lemma fold_js_set_append:
  assumes "distinct (map fst ps)" and "fst ` set ps \<inter> fst ` set xs = {}"
    and "\<forall>k \<in> fst ` set ps. \<not> is_array_index k"
  shows "fold (\<lambda>(k, v). js_set k v) ps xs = xs @ ps"
  using assms
proof (induction ps arbitrary: xs)
  case Nil
  show ?case by simp
next
  case (Cons p ps)
  obtain k v where p: "p = (k, v)"
    by (cases p)
  from Cons.prems p have a: "js_set k v xs = xs @ [(k, v)]"
    by (intro js_set_append) auto
  from Cons.prems p have "fold (\<lambda>(k, v). js_set k v) ps (xs @ [(k, v)]) = (xs @ [(k, v)]) @ ps"
    by (intro Cons.IH) auto
  with a p show ?case
    by simp
qed

text \<open>
  C2. The cache key lists the parameters in the enumeration order of the caller's map,
  after \<open>api_key\<close>, and does not reorder them: for parameter names that are pairwise
  different, not array indices and not \<open>api_key\<close>, the key is \<open>GET:\<close>, the endpoint, a
  colon, and the encoded pairs \<open>api_key=...&name=value&...\<close> in the order given. Two maps
  that enumerate the same pairs in the same order therefore get the same key.
\<close>

theorem cacheKey_keeps_parameter_order:
  assumes "distinct (map fst params)" and "''api_key'' \<notin> fst ` set params"
    and "\<forall>k \<in> fst ` set params. \<not> is_array_index k"
  shows "cacheKey_of credential endpoint params =
           ''GET:'' @ endpoint @ '':'' @
           join_amp (map (\<lambda>(k, v). urlencode k @ ''='' @ urlencode v)
                      ((''api_key'', credential) # params))"
proof -
  from assms have "spread_params credential params = [(''api_key'', credential)] @ params"
    unfolding spread_params_def by (intro fold_js_set_append) auto
  then show ?thesis
    by (simp add: cacheKey_of_def URLSearchParams_toString_def)
qed

theorem cacheKey_keeps_parameter_order_witness:
  "cacheKey_of ''demo-key'' ''/search/movie'' [(''query'', ''dune''), (''page'', ''1'')]
     = ''GET:/search/movie:api_key=demo-key&query=dune&page=1''"
  using cacheKey_keeps_parameter_order
    [of "[(''query'', ''dune''), (''page'', ''1'')]" "''demo-key''" "''/search/movie''"]
  by (simp add: is_array_index_def is_digit_def urlencode_def urlencode_byte_def)

text \<open>The same two pairs in the other order give another key.\<close>

theorem cacheKey_parameter_order_counterexample:
  "cacheKey_of ''demo-key'' ''/search/movie'' [(''query'', ''dune''), (''page'', ''1'')]
     \<noteq> cacheKey_of ''demo-key'' ''/search/movie'' [(''page'', ''1''), (''query'', ''dune'')]"
  by (simp add: cacheKey_of_def spread_params_def URLSearchParams_toString_def urlencode_def
        urlencode_byte_def is_array_index_def is_digit_def)

section \<open>Properties of the bulk reset\<close>

lemma fold_removeFavorite:
  "fold (\<lambda>fav. removeFavorite (fav_id fav)) favs d =
     d\<lparr>favorites := filter (\<lambda>x. fav_id x \<notin> fav_id ` set favs) (favorites d)\<rparr>"
proof (induction favs arbitrary: d)
  case Nil
  show ?case by simp
next
  case (Cons f favs)
  let ?d = "removeFavorite (fav_id f) d"
  have "fold (\<lambda>fav. removeFavorite (fav_id fav)) (f # favs) d =
        fold (\<lambda>fav. removeFavorite (fav_id fav)) favs ?d"
    by simp
  also have "\<dots> = ?d\<lparr>favorites := filter (\<lambda>x. fav_id x \<notin> fav_id ` set favs) (favorites ?d)\<rparr>"
    by (rule Cons.IH)
  also have "\<dots> = d\<lparr>favorites := filter (\<lambda>x. fav_id x \<notin> fav_id ` set (f # favs)) (favorites d)\<rparr>"
    by (simp add: removeFavorite_def os_delete_def)
  finally show ?case .
qed

lemma clearAllData_effect: "clearAllData (d, localStorage) = (d\<lparr>favorites := []\<rparr>, [])"
proof -
  have "filter (\<lambda>x. fav_id x \<notin> fav_id ` set (getFavorites d)) (favorites d) = []"
    by (auto simp: getFavorites_def os_getAll_def filter_empty_conv)
  then show ?thesis
    by (simp add: clearAllData_def Let_def fold_removeFavorite)
qed

text \<open>
  C8. On a database without favorites that holds one search-history entry, one preference
  and one usage event, \<open>clearAllData\<close> leaves all three where they are: it deletes
  favorites and clears \<open>localStorage\<close>, nothing else.
\<close>

theorem clearAllData_keeps_other_stores:
  "search_history (fst (clearAllData
      (addToSearchHistory 10 ''dune'' (snd (trackEvent 20 ''movie_search'' (JObj [(''query'', JStr ''dune'')])
         (setPreference ''user-preferences'' (JObj [(''theme'', JStr ''light'')]) initDB))),
       [(''theme'', ''light'')])))
     = [\<lparr>query = ''dune'', searched_timestamp = 10\<rparr>] \<and>
   preferences (fst (clearAllData
      (addToSearchHistory 10 ''dune'' (snd (trackEvent 20 ''movie_search'' (JObj [(''query'', JStr ''dune'')])
         (setPreference ''user-preferences'' (JObj [(''theme'', JStr ''light'')]) initDB))),
       [(''theme'', ''light'')])))
     = [(''user-preferences'', JObj [(''theme'', JStr ''light'')])] \<and>
   length (analytics (fst (clearAllData
      (addToSearchHistory 10 ''dune'' (snd (trackEvent 20 ''movie_search'' (JObj [(''query'', JStr ''dune'')])
         (setPreference ''user-preferences'' (JObj [(''theme'', JStr ''light'')]) initDB))),
       [(''theme'', ''light'')])))) = 1"
  by (simp add: clearAllData_effect addToSearchHistory_def trackEvent_def setPreference_def
        os_put_def os_get_def)

end
